theory Spec2Isabelle
  imports Main "HOL-Library.Word"
begin

unbundle bit_operations_syntax

section \<open>Python values: exceptions, integer formatting and parsing\<close>

text \<open>
  The script \<^verbatim>\<open>configure-serial.py\<close> is a single procedure over the operating system's
  terminal interface. Exceptions are values: every \<^verbatim>\<open>raise\<close> of the interpreter or of
  a library call is an \<open>Inl\<close> result. The payload of an exception is its \<^verbatim>\<open>str(e)\<close>.
\<close>

datatype exn =
    OSError string
  | TermiosError string
  | AttributeError string
  | IndexError string
  | TypeError string
  | ValueError string

fun str_exn :: "exn \<Rightarrow> string" where
  "str_exn (OSError m) = m"
| "str_exn (TermiosError m) = m"
| "str_exn (AttributeError m) = m"
| "str_exn (IndexError m) = m"
| "str_exn (TypeError m) = m"
| "str_exn (ValueError m) = m"

text \<open>
  \<^verbatim>\<open>sys.exit(n)\<close> raises \<^verbatim>\<open>SystemExit\<close>, which derives from \<^verbatim>\<open>BaseException\<close> and
  is therefore not caught by \<^verbatim>\<open>except Exception\<close>; every other exception of the model
  derives from \<^verbatim>\<open>Exception\<close>.
\<close>

datatype raised = Exception exn | SystemExit int

definition apostrophe :: string where
  "apostrophe = [CHR 0x27]"

definition digit_char :: "nat \<Rightarrow> char" where
  "digit_char d = ''0123456789'' ! d"

fun str_nat :: "nat \<Rightarrow> string" where
  "str_nat n = (if n < 10 then [digit_char n] else str_nat (n div 10) @ [digit_char (n mod 10)])"

declare str_nat.simps [simp del]

definition str_int :: "int \<Rightarrow> string" where
  \<comment> \<open>the text an f-string puts for an integer\<close>
  "str_int i = (if i < 0 then CHR ''-'' # str_nat (nat (- i)) else str_nat (nat i))"

text \<open>
  \<^verbatim>\<open>repr(s)\<close> of a string, as the messages of \<^verbatim>\<open>int\<close> show it. A \<open>char\<close> below 128
  is the ASCII character; a \<open>char\<close> from 128 on stands for a byte of the command line
  that the interpreter could not decode, which it keeps as the lone surrogate
  \<^verbatim>\<open>U+DC00 + byte\<close> and shows as \<^verbatim>\<open>\udcxx\<close>.
\<close>

definition backslash :: char where
  "backslash = CHR 0x5C"

definition hex_char :: "nat \<Rightarrow> char" where
  "hex_char d = ''0123456789abcdef'' ! d"

definition repr_char :: "char \<Rightarrow> char \<Rightarrow> string" where
  "repr_char q c =
     (let n = (of_char c :: nat)
      in if c = q \<or> c = backslash then [backslash, c]
         else if n = 9 then [backslash, CHR ''t'']
         else if n = 10 then [backslash, CHR ''n'']
         else if n = 13 then [backslash, CHR ''r'']
         else if n < 32 \<or> n = 127 then [backslash, CHR ''x'', hex_char (n div 16), hex_char (n mod 16)]
         else if 128 \<le> n then
           [backslash, CHR ''u'', CHR ''d'', CHR ''c'', hex_char (n div 16), hex_char (n mod 16)]
         else [c])"

definition py_repr :: "string \<Rightarrow> string" where
  "py_repr s =
     (let q = (if CHR 0x27 \<in> set s \<and> CHR 0x22 \<notin> set s then CHR 0x22 else CHR 0x27)
      in q # concat (map (repr_char q) s) @ [q])"

text \<open>
  \<^verbatim>\<open>int(s)\<close> on a string of ASCII characters, as \<^verbatim>\<open>PyLong_FromString\<close> reads it in
  base 10: white space (tab, line feed, vertical tab, form feed, carriage return, space)
  is skipped at both ends; one sign may follow the leading white space; then comes the
  longest run of digits and underscores, which must begin with a digit, must not end
  with an underscore and must have no two underscores in a row; only white space may
  follow the run. A run of more than \<open>m\<close> digits is refused when the limit \<open>m\<close> is set
  (\<^verbatim>\<open>sys.get_int_max_str_digits()\<close>, 0 for no limit; the limit is not looked at up to 640
  digits), and it is refused before what follows the run is looked at. The result is
  the value, or the message of the \<^verbatim>\<open>ValueError\<close>.
\<close>

definition is_ascii :: "string \<Rightarrow> bool" where
  "is_ascii s = list_all (\<lambda>c. (of_char c :: nat) < 128) s"

definition is_space :: "char \<Rightarrow> bool" where
  "is_space c = ((of_char c :: nat) \<in> {9, 10, 11, 12, 13, 32})"

definition is_digit :: "char \<Rightarrow> bool" where
  "is_digit c = (48 \<le> (of_char c :: nat) \<and> (of_char c :: nat) \<le> 57)"

definition digit_val :: "char \<Rightarrow> nat" where
  "digit_val c = of_char c - 48"

definition in_run :: "char \<Rightarrow> bool" where
  "in_run c = (is_digit c \<or> c = CHR ''_'')"

fun underscores_ok :: "string \<Rightarrow> bool" where
  "underscores_ok [] = True"
| "underscores_ok [c] = (c \<noteq> CHR ''_'')"
| "underscores_ok (c # d # cs) = (\<not> (c = CHR ''_'' \<and> d = CHR ''_'') \<and> underscores_ok (d # cs))"

definition run_value :: "string \<Rightarrow> nat" where
  "run_value run = fold (\<lambda>c acc. if c = CHR ''_'' then acc else 10 * acc + digit_val c) run 0"

definition invalid_literal :: "string \<Rightarrow> string" where
  \<comment> \<open>the format is \<^verbatim>\<open>%.200R\<close>\<close>
  "invalid_literal s = ''invalid literal for int() with base 10: '' @ take 200 (py_repr s)"

definition exceeds_limit :: "nat \<Rightarrow> nat \<Rightarrow> string" where
  "exceeds_limit m digits =
     ''Exceeds the limit ('' @ str_nat m @ '' digits) for integer string conversion: value has ''
     @ str_nat digits @ '' digits; use sys.set_int_max_str_digits() to increase the limit''"

definition int_ascii :: "nat \<Rightarrow> string \<Rightarrow> string + int" where
  "int_ascii m s =
     (let t = dropWhile is_space s;
          neg = (case t of [] \<Rightarrow> False | c # _ \<Rightarrow> c = CHR ''-'');
          u = (case t of [] \<Rightarrow> [] | c # cs \<Rightarrow> if c = CHR ''-'' \<or> c = CHR ''+'' then cs else t);
          run = takeWhile in_run u;
          rest = dropWhile in_run u;
          digits = length (filter is_digit run)
      in if (case run of [] \<Rightarrow> True | c # _ \<Rightarrow> c = CHR ''_'') \<or> \<not> underscores_ok run
         then Inl (invalid_literal s)
         else if 0 < m \<and> 640 < digits \<and> m < digits then Inl (exceeds_limit m digits)
         else if dropWhile is_space rest \<noteq> [] then Inl (invalid_literal s)
         else Inr ((if neg then - 1 else 1) * int (run_value run)))"

text \<open>
  What \<^verbatim>\<open>int\<close> makes of an argument with a character beyond ASCII depends on how the
  interpreter decodes the command line and on its Unicode tables (white space and
  decimal digits of every script are accepted), so that part belongs to the
  interpreter and is a parameter, as is the digit limit.
\<close>

record interpreter =
  int_max_str_digits :: nat
  int_beyond_ascii :: "string \<Rightarrow> string + int"

definition int_str :: "interpreter \<Rightarrow> string \<Rightarrow> string + int" where
  "int_str ip s = (if is_ascii s then int_ascii (int_max_str_digits ip) s else int_beyond_ascii ip s)"

section \<open>The terminal attribute record and the host's constants\<close>

text \<open>
  \<^verbatim>\<open>termios.tcgetattr\<close> returns the list
  \<^verbatim>\<open>[iflag, oflag, cflag, lflag, ispeed, ospeed, cc]\<close>; the record has one field per
  position. The flag words and speeds are Python integers; the control-character table
  is a list of bytes (\<^verbatim>\<open>cc_t\<close>). Python shows an entry of the table as a bytes object of
  length 1 or, for \<^verbatim>\<open>VMIN\<close> and \<^verbatim>\<open>VTIME\<close> outside canonical mode, as an integer; both
  stand for the byte the driver stores.
\<close>

type_synonym cc_t = "8 word"

record termios_attr =
  iflag :: int
  oflag :: int
  cflag :: int
  lflag :: int
  ispeed :: int
  ospeed :: int
  cc :: "cc_t list"

text \<open>
  The constants of the modules \<^verbatim>\<open>termios\<close> and \<^verbatim>\<open>os\<close> belong to the host, not to the
  script, so they are a parameter. \<open>B h rate\<close> is the attribute \<^verbatim>\<open>termios.B<rate>\<close>:
  \<open>None\<close> when the host does not define it (\<^verbatim>\<open>hasattr\<close> is false).
\<close>

record host =
  B :: "int \<rightharpoonup> int"
  CS8 :: int
  CREAD :: int
  CLOCAL :: int
  PARENB :: int
  CSTOPB :: int
  VMIN :: nat
  VTIME :: nat
  NCCS :: nat
  TCSANOW :: int
  O_RDWR :: int
  O_NOCTTY :: int
  O_NONBLOCK :: int

section \<open>The operating system: device nodes, descriptors, output streams\<close>

text \<open>
  A device node may refuse to be opened (\<open>open_errno\<close> holds the message of the
  \<^verbatim>\<open>OSError\<close>), may be no terminal at all (\<open>line = None\<close>), and its driver may reject
  new attributes (\<open>set_errno\<close>). The driver is modelled as storing the attribute record
  it is given as it is given. The world holds the device nodes by path, the table of
  open descriptors of the process, and the lines written to the two output streams.
\<close>

record device =
  open_errno :: "string option"
  line :: "termios_attr option"
  set_errno :: "string option"

record world =
  nodes :: "string \<rightharpoonup> device"
  fdtab :: "(nat \<times> string) list"
  stdout :: "string list"
  stderr :: "string list"

type_synonym 'a py = "world \<Rightarrow> (raised + 'a) \<times> world"

definition py_return :: "'a \<Rightarrow> 'a py" where
  "py_return x w = (Inr x, w)"

definition py_raise :: "exn \<Rightarrow> 'a py" where
  "py_raise e w = (Inl (Exception e), w)"

definition py_bind :: "'a py \<Rightarrow> ('a \<Rightarrow> 'b py) \<Rightarrow> 'b py" where
  "py_bind m f w = (case m w of (Inl r, w') \<Rightarrow> (Inl r, w') | (Inr x, w') \<Rightarrow> f x w')"

definition sys_exit :: "int \<Rightarrow> 'a py" where
  "sys_exit n w = (Inl (SystemExit n), w)"

definition print :: "string \<Rightarrow> unit py" where
  "print s w = (Inr (), w\<lparr>stdout := stdout w @ [s]\<rparr>)"

definition print_stderr :: "string \<Rightarrow> unit py" where
  "print_stderr s w = (Inr (), w\<lparr>stderr := stderr w @ [s]\<rparr>)"

definition lowest_free :: "nat list \<Rightarrow> nat" where
  \<comment> \<open>\<^verbatim>\<open>open(2)\<close> returns the lowest descriptor that is not in use\<close>
  "lowest_free used =
     (case filter (\<lambda>n. n \<notin> set used) [0..<Suc (length used)] of
        [] \<Rightarrow> Suc (length used)
      | n # _ \<Rightarrow> n)"

definition os_open :: "string \<Rightarrow> int \<Rightarrow> nat py" where
  \<comment> \<open>the flags do not decide the outcome in this model\<close>
  "os_open path flags w =
     (case nodes w path of
        None \<Rightarrow>
          py_raise (OSError (''[Errno 2] No such file or directory: '' @ apostrophe @ path @ apostrophe)) w
      | Some d \<Rightarrow>
          (case open_errno d of
             Some m \<Rightarrow> py_raise (OSError m) w
           | None \<Rightarrow>
               (let fd = lowest_free (map fst (fdtab w))
                in (Inr fd, w\<lparr>fdtab := (fd, path) # fdtab w\<rparr>))))"

definition os_close :: "nat \<Rightarrow> unit py" where
  "os_close fd w =
     (if fd \<in> fst ` set (fdtab w)
      then (Inr (), w\<lparr>fdtab := filter (\<lambda>e. fst e \<noteq> fd) (fdtab w)\<rparr>)
      else py_raise (OSError ''[Errno 9] Bad file descriptor'') w)"

text \<open>
  \<^verbatim>\<open>termios.tcgetattr\<close> and \<^verbatim>\<open>termios.tcsetattr\<close> raise \<^verbatim>\<open>termios.error\<close> with the
  pair of \<^verbatim>\<open>errno\<close> and message. \<^verbatim>\<open>tcsetattr\<close> reads the current attributes first,
  requires a table of \<^verbatim>\<open>NCCS\<close> entries and then hands the record to the driver; there
  is no output queue in the model, so every value of \<open>when\<close> takes effect at once.
\<close>

definition tcgetattr :: "nat \<Rightarrow> termios_attr py" where
  "tcgetattr fd w =
     (case map_of (fdtab w) fd of
        None \<Rightarrow> py_raise (TermiosError (''(9, '' @ apostrophe @ ''Bad file descriptor'' @ apostrophe @ '')'')) w
      | Some path \<Rightarrow>
          (case nodes w path of
             None \<Rightarrow> py_raise (TermiosError (''(5, '' @ apostrophe @ ''Input/output error'' @ apostrophe @ '')'')) w
           | Some d \<Rightarrow>
               (case line d of
                  None \<Rightarrow>
                    py_raise (TermiosError (''(25, '' @ apostrophe @ ''Inappropriate ioctl for device'' @ apostrophe @ '')'')) w
                | Some a \<Rightarrow> (Inr a, w))))"

definition tcsetattr :: "host \<Rightarrow> nat \<Rightarrow> int \<Rightarrow> termios_attr \<Rightarrow> unit py" where
  "tcsetattr h fd when a w =
     (case map_of (fdtab w) fd of
        None \<Rightarrow> py_raise (TermiosError (''(9, '' @ apostrophe @ ''Bad file descriptor'' @ apostrophe @ '')'')) w
      | Some path \<Rightarrow>
          (case nodes w path of
             None \<Rightarrow> py_raise (TermiosError (''(5, '' @ apostrophe @ ''Input/output error'' @ apostrophe @ '')'')) w
           | Some d \<Rightarrow>
               (case line d of
                  None \<Rightarrow>
                    py_raise (TermiosError (''(25, '' @ apostrophe @ ''Inappropriate ioctl for device'' @ apostrophe @ '')'')) w
                | Some _ \<Rightarrow>
                    if length (cc a) \<noteq> NCCS h
                    then py_raise (TypeError (''tcsetattr: attributes[6] must be '' @ str_nat (NCCS h) @ '' element list'')) w
                    else
                      (case set_errno d of
                         Some m \<Rightarrow> py_raise (TermiosError m) w
                       | None \<Rightarrow> (Inr (), w\<lparr>nodes := (nodes w)(path \<mapsto> d\<lparr>line := Some a\<rparr>)\<rparr>)))))"

section \<open>The script\<close>

text \<open>
  Lines 20 to 24: the dictionary \<^verbatim>\<open>baudrates\<close> is filled by probing the host for each
  of the four candidate rates.
\<close>

definition candidate_rates :: "int list" where
  "candidate_rates = [115200, 230400, 460800, 921600]"

definition probe_baudrates :: "host \<Rightarrow> (int \<rightharpoonup> int)" where
  "probe_baudrates h =
     fold (\<lambda>rate baudrates.
             case B h rate of None \<Rightarrow> baudrates | Some c \<Rightarrow> baudrates(rate \<mapsto> c))
          candidate_rates Map.empty"

definition warning_line :: "int \<Rightarrow> string" where
  "warning_line baudrate = ''Warning: Baudrate '' @ str_int baudrate @ '' not available, using 115200''"

definition termios_B115200 :: "host \<Rightarrow> int py" where
  \<comment> \<open>the attribute access \<^verbatim>\<open>termios.B115200\<close> of line 29\<close>
  "termios_B115200 h =
     (case B h 115200 of
        None \<Rightarrow>
          py_raise (AttributeError (''module '' @ apostrophe @ ''termios'' @ apostrophe
                                     @ '' has no attribute '' @ apostrophe @ ''B115200'' @ apostrophe))
      | Some c \<Rightarrow> py_return c)"

definition list_setitem :: "'a list \<Rightarrow> nat \<Rightarrow> 'a \<Rightarrow> exn + 'a list" where
  \<comment> \<open>\<^verbatim>\<open>xs[i] = v\<close> for an index that is not negative\<close>
  "list_setitem xs i v =
     (if i < length xs then Inr (xs[i := v]) else Inl (IndexError ''list assignment index out of range''))"

text \<open>
  Lines 32 to 51: the record handed to \<^verbatim>\<open>tcsetattr\<close>, computed from the record that
  \<^verbatim>\<open>tcgetattr\<close> returned and from the resolved speed constant.
\<close>

definition raw_attr :: "host \<Rightarrow> int \<Rightarrow> termios_attr \<Rightarrow> exn + termios_attr" where
  "raw_attr h baud attrs =
     (case list_setitem (cc attrs) (VMIN h) 0 of
        Inl e \<Rightarrow> Inl e
      | Inr cc1 \<Rightarrow>
          (case list_setitem cc1 (VTIME h) 0 of
             Inl e \<Rightarrow> Inl e
           | Inr cc2 \<Rightarrow>
               Inr \<lparr>iflag = 0, oflag = 0, cflag = CS8 h OR CREAD h OR CLOCAL h, lflag = 0,
                    ispeed = baud, ospeed = baud, cc = cc2\<rparr>))"

definition py_lift :: "exn + 'a \<Rightarrow> 'a py" where
  "py_lift r = (case r of Inl e \<Rightarrow> py_raise e | Inr x \<Rightarrow> py_return x)"

definition confirmation_lines :: "string \<Rightarrow> int \<Rightarrow> string list" where
  \<comment> \<open>the four lines that lines 53 to 56 print\<close>
  "confirmation_lines port_path baudrate =
     [''[configure-serial] Configured '' @ port_path @ '' for raw binary mode'',
      ''[configure-serial] Baud rate: '' @ str_int baudrate,
      ''[configure-serial] iflag=0, oflag=0, lflag=0 (all processing disabled)'',
      ''[configure-serial] VMIN=0, VTIME=0 (non-blocking)'']"

definition try_block :: "host \<Rightarrow> string \<Rightarrow> int \<Rightarrow> unit py" where
  "try_block h port_path baudrate =
     py_bind (os_open port_path (O_RDWR h OR O_NOCTTY h OR O_NONBLOCK h)) (\<lambda>fd.
     py_bind (tcgetattr fd) (\<lambda>attrs.
     py_bind (py_return (probe_baudrates h)) (\<lambda>baudrates.
     py_bind (if baudrates baudrate = None
              then py_bind (print (warning_line baudrate)) (\<lambda>_. py_return 115200)
              else py_return baudrate) (\<lambda>baudrate.
     py_bind (termios_B115200 h) (\<lambda>dflt.
     py_bind (py_return (case baudrates baudrate of None \<Rightarrow> dflt | Some c \<Rightarrow> c)) (\<lambda>baud.
     py_bind (py_lift (raw_attr h baud attrs)) (\<lambda>new_attrs.
     py_bind (tcsetattr h fd (TCSANOW h) new_attrs) (\<lambda>_.
     py_bind (print (''[configure-serial] Configured '' @ port_path @ '' for raw binary mode'')) (\<lambda>_.
     py_bind (print (''[configure-serial] Baud rate: '' @ str_int baudrate)) (\<lambda>_.
     py_bind (print ''[configure-serial] iflag=0, oflag=0, lflag=0 (all processing disabled)'') (\<lambda>_.
     py_bind (print ''[configure-serial] VMIN=0, VTIME=0 (non-blocking)'') (\<lambda>_.
     py_bind (os_close fd) (\<lambda>_.
     sys_exit 0)))))))))))))"

definition configure_serial_raw :: "host \<Rightarrow> string \<Rightarrow> int \<Rightarrow> unit py" where
  "configure_serial_raw h port_path baudrate w =
     (case try_block h port_path baudrate w of
        (Inl (Exception e), w') \<Rightarrow>
          py_bind (print_stderr (''Error: '' @ str_exn e)) (\<lambda>_. sys_exit 1) w'
      | (Inl (SystemExit n), w') \<Rightarrow> (Inl (SystemExit n), w')
      | (Inr u, w') \<Rightarrow> (Inr u, w'))"





text \<open>The attribute record a device node holds, read through its path.\<close>

definition applied :: "world \<Rightarrow> string \<Rightarrow> termios_attr option" where
  "applied w path = (case nodes w path of None \<Rightarrow> None | Some d \<Rightarrow> line d)"

section \<open>A concrete host and concrete devices\<close>

text \<open>The values of Linux on x86-64 (\<^verbatim>\<open>asm-generic/termbits.h\<close>, \<^verbatim>\<open>fcntl.h\<close>).\<close>

definition linux :: host where
  "linux = \<lparr>B = [115200 \<mapsto> 4098, 230400 \<mapsto> 4099, 460800 \<mapsto> 4100, 921600 \<mapsto> 4103,
                  9600 \<mapsto> 13, 57600 \<mapsto> 4097],
            CS8 = 48, CREAD = 128, CLOCAL = 2048, PARENB = 256, CSTOPB = 64,
            VMIN = 6, VTIME = 5, NCCS = 32, TCSANOW = 0,
            O_RDWR = 2, O_NOCTTY = 256, O_NONBLOCK = 2048\<rparr>"


definition cooked :: termios_attr where
  \<comment> \<open>a terminal in canonical mode at 9600 baud, as a login shell leaves it\<close>
  "cooked = \<lparr>iflag = 1280, oflag = 5, cflag = 3261, lflag = 35387, ispeed = 13, ospeed = 13,
             cc = [3, 28, 127, 21, 4, 0, 1, 0, 17, 19, 26, 0, 18, 15, 23, 22,
                   0, 0, 0, 0, 0, 0, 0, 0, 0, 0, 0, 0, 0, 0, 0, 0]\<rparr>"

definition ttyS0 :: device where
  "ttyS0 = \<lparr>open_errno = None, line = Some cooked, set_errno = None\<rparr>"

definition dev_null :: device where
  \<comment> \<open>a node that opens but is no terminal\<close>
  "dev_null = \<lparr>open_errno = None, line = None, set_errno = None\<rparr>"

definition boot :: world where
  "boot = \<lparr>nodes = [''/dev/ttyS0'' \<mapsto> ttyS0, ''/dev/null'' \<mapsto> dev_null],
           fdtab = [(0, ''/dev/pts/0''), (1, ''/dev/pts/0''), (2, ''/dev/pts/0'')],
           stdout = [], stderr = []\<rparr>"

section \<open>Notions used in the statements\<close>

text \<open>
  The world after a successful \<^verbatim>\<open>os.open\<close>; the rate the script goes on with after
  line 28; the speed constant of line 29, given the value of \<^verbatim>\<open>termios.B115200\<close>; the
  world after lines 26 to 28; and the condition under which a run ends with status 0.
\<close>

definition opened :: "string \<Rightarrow> world \<Rightarrow> world" where
  "opened p w = w\<lparr>fdtab := (lowest_free (map fst (fdtab w)), p) # fdtab w\<rparr>"

definition effective_rate :: "host \<Rightarrow> int \<Rightarrow> int" where
  "effective_rate h b = (if probe_baudrates h b = None then 115200 else b)"

definition resolved_baud :: "host \<Rightarrow> int \<Rightarrow> int \<Rightarrow> int" where
  "resolved_baud h b c0 = (case probe_baudrates h (effective_rate h b) of None \<Rightarrow> c0 | Some c \<Rightarrow> c)"

definition warned :: "host \<Rightarrow> int \<Rightarrow> world \<Rightarrow> world" where
  "warned h b w = (if probe_baudrates h b = None then w\<lparr>stdout := stdout w @ [warning_line b]\<rparr> else w)"

definition ready :: "host \<Rightarrow> string \<Rightarrow> world \<Rightarrow> bool" where
  "ready h p w =
     (case nodes w p of
        None \<Rightarrow> False
      | Some d \<Rightarrow>
          open_errno d = None \<and> set_errno d = None \<and> B h 115200 \<noteq> None \<and>
          (case line d of
             None \<Rightarrow> False
           | Some a \<Rightarrow> VMIN h < length (cc a) \<and> VTIME h < length (cc a) \<and> length (cc a) = NCCS h))"

definition configured :: world where
  "configured = snd (configure_serial_raw linux ''/dev/ttyS0'' 230400 boot)"

definition twice :: "host \<Rightarrow> string \<Rightarrow> int \<Rightarrow> world \<Rightarrow> world" where
  \<comment> \<open>the world after two runs in succession with the same arguments\<close>
  "twice h p b w = snd (configure_serial_raw h p b (snd (configure_serial_raw h p b w)))"

definition raw_230400 :: termios_attr where
  "raw_230400 =
     \<lparr>iflag = 0, oflag = 0, cflag = 2224, lflag = 0, ispeed = 4099, ospeed = 4099,
          cc = [3, 28, 127, 21, 4, 0, 0, 0, 17, 19, 26, 0, 18, 15, 23, 22,
                0, 0, 0, 0, 0, 0, 0, 0, 0, 0, 0, 0, 0, 0, 0, 0]\<rparr>"

definition cooked_b :: termios_attr where
  \<comment> \<open>as \<open>cooked\<close>, with another interrupt character\<close>
  "cooked_b = cooked\<lparr>cc := (cc cooked)[0 := 99]\<rparr>"

definition boot_b :: world where
  "boot_b = boot\<lparr>nodes := (nodes boot)(''/dev/ttyS0'' \<mapsto> ttyS0\<lparr>line := Some cooked_b\<rparr>)\<rparr>"

definition raw_230400_b :: termios_attr where
  "raw_230400_b = raw_230400\<lparr>cc := (cc raw_230400)[0 := 99]\<rparr>"

text \<open>
  The reading of ``decimal integer string'': an optional sign followed by one or more
  of the digits 0 to 9.
\<close>

definition decimal_integer_string :: "string \<Rightarrow> bool" where
  "decimal_integer_string s =
     (case s of
        [] \<Rightarrow> False
      | c # cs \<Rightarrow>
          if c = CHR ''-'' \<or> c = CHR ''+'' then cs \<noteq> [] \<and> list_all is_digit cs
          else list_all is_digit s)"

section \<open>The operations, branch by branch\<close>

lemma lowest_free_fresh: "lowest_free used \<notin> set used"
proof (cases "filter (\<lambda>n. n \<notin> set used) [0..<Suc (length used)]")
  case Nil
  then have "\<forall>n \<in> set [0..<Suc (length used)]. n \<in> set used"
    by (simp only: filter_empty_conv) blast
  then have "{0..<Suc (length used)} \<subseteq> set used"
    by (auto simp del: upt_Suc)
  then have "card {0..<Suc (length used)} \<le> card (set used)"
    by (intro card_mono) auto
  moreover have "card (set used) \<le> length used"
    by (rule card_length)
  ultimately show ?thesis by simp
next
  case (Cons n ns)
  then have "n \<in> set (filter (\<lambda>n. n \<notin> set used) [0..<Suc (length used)])"
    by simp
  then have "n \<notin> set used" by (simp del: upt_Suc)
  with Cons show ?thesis by (simp add: lowest_free_def)
qed

lemma probe_baudrates_eq:
  "probe_baudrates h r = (if r \<in> set candidate_rates then B h r else None)"
  by (simp add: probe_baudrates_def candidate_rates_def split: option.splits)

lemma filter_fresh:
  "fd \<notin> fst ` set tab \<Longrightarrow> filter (\<lambda>e. fst e \<noteq> fd) tab = tab"
  by (induction tab) auto

lemmas py_defs = py_bind_def py_return_def py_raise_def sys_exit_def print_def print_stderr_def py_lift_def

lemma fault_no_such_file:
  "nodes w p = None \<Longrightarrow>
   try_block h p b w =
     (Inl (Exception (OSError (''[Errno 2] No such file or directory: '' @ apostrophe @ p @ apostrophe))), w)"
  by (simp add: try_block_def py_defs os_open_def)

lemma fault_open_refused:
  "nodes w p = Some d \<Longrightarrow> open_errno d = Some m \<Longrightarrow>
   try_block h p b w = (Inl (Exception (OSError m)), w)"
  by (simp add: try_block_def py_defs os_open_def)

lemma fault_not_a_terminal:
  "nodes w p = Some d \<Longrightarrow> open_errno d = None \<Longrightarrow> line d = None \<Longrightarrow>
   try_block h p b w =
     (Inl (Exception (TermiosError (''(25, '' @ apostrophe @ ''Inappropriate ioctl for device'' @ apostrophe @ '')''))),
      opened p w)"
  by (simp add: try_block_def py_defs os_open_def tcgetattr_def opened_def Let_def)

lemma fault_no_B115200:
  "nodes w p = Some d \<Longrightarrow> open_errno d = None \<Longrightarrow> line d = Some a \<Longrightarrow> B h 115200 = None \<Longrightarrow>
   try_block h p b w =
     (Inl (Exception (AttributeError (''module '' @ apostrophe @ ''termios'' @ apostrophe
                                     @ '' has no attribute '' @ apostrophe @ ''B115200'' @ apostrophe))),
      warned h b (opened p w))"
  by (simp add: try_block_def py_defs os_open_def tcgetattr_def opened_def Let_def warned_def termios_B115200_def)

lemma fault_index:
  "nodes w p = Some d \<Longrightarrow> open_errno d = None \<Longrightarrow> line d = Some a \<Longrightarrow> B h 115200 = Some c0 \<Longrightarrow>
   raw_attr h (resolved_baud h b c0) a = Inl e \<Longrightarrow>
   try_block h p b w = (Inl (Exception e), warned h b (opened p w))"
  by (cases "probe_baudrates h b")
     (simp_all add: try_block_def py_defs os_open_def tcgetattr_def opened_def Let_def warned_def termios_B115200_def
      resolved_baud_def effective_rate_def)

lemma fault_table_length:
  "nodes w p = Some d \<Longrightarrow> open_errno d = None \<Longrightarrow> line d = Some a \<Longrightarrow> B h 115200 = Some c0 \<Longrightarrow>
   raw_attr h (resolved_baud h b c0) a = Inr r \<Longrightarrow> length (cc r) \<noteq> NCCS h \<Longrightarrow>
   try_block h p b w =
     (Inl (Exception (TypeError (''tcsetattr: attributes[6] must be '' @ str_nat (NCCS h) @ '' element list''))),
      warned h b (opened p w))"
  by (cases "probe_baudrates h b")
     (simp_all add: try_block_def py_defs os_open_def tcgetattr_def tcsetattr_def opened_def Let_def warned_def
      termios_B115200_def resolved_baud_def effective_rate_def)

lemma fault_driver:
  "nodes w p = Some d \<Longrightarrow> open_errno d = None \<Longrightarrow> line d = Some a \<Longrightarrow> B h 115200 = Some c0 \<Longrightarrow>
   raw_attr h (resolved_baud h b c0) a = Inr r \<Longrightarrow> length (cc r) = NCCS h \<Longrightarrow> set_errno d = Some m \<Longrightarrow>
   try_block h p b w = (Inl (Exception (TermiosError m)), warned h b (opened p w))"
  by (cases "probe_baudrates h b")
     (simp_all add: try_block_def py_defs os_open_def tcgetattr_def tcsetattr_def opened_def Let_def warned_def
      termios_B115200_def resolved_baud_def effective_rate_def)

lemma run_to_exit_0:
  "nodes w p = Some d \<Longrightarrow> open_errno d = None \<Longrightarrow> line d = Some a \<Longrightarrow> B h 115200 = Some c0 \<Longrightarrow>
   raw_attr h (resolved_baud h b c0) a = Inr r \<Longrightarrow> length (cc r) = NCCS h \<Longrightarrow> set_errno d = None \<Longrightarrow>
   try_block h p b w =
     (Inl (SystemExit 0),
      (warned h b w)\<lparr>nodes := (nodes w)(p \<mapsto> d\<lparr>line := Some r\<rparr>),
                     stdout := stdout (warned h b w) @ confirmation_lines p (effective_rate h b)\<rparr>)"
  using lowest_free_fresh[of "map fst (fdtab w)"]
  by (cases "probe_baudrates h b")
     (simp_all add: try_block_def py_defs os_open_def tcgetattr_def tcsetattr_def os_close_def Let_def warned_def
      termios_B115200_def resolved_baud_def effective_rate_def confirmation_lines_def filter_fresh)

lemma raw_attr_Inr:
  "raw_attr h baud a = Inr r \<longleftrightarrow>
     VMIN h < length (cc a) \<and> VTIME h < length (cc a) \<and>
     r = \<lparr>iflag = 0, oflag = 0, cflag = CS8 h OR CREAD h OR CLOCAL h, lflag = 0,
          ispeed = baud, ospeed = baud, cc = (cc a)[VMIN h := 0, VTIME h := 0]\<rparr>"
  by (auto simp: raw_attr_def list_setitem_def)

lemma list_update_twice:
  "xs[i := v, j := v, i := v, j := v] = xs[i := v, j := v]"
  by (cases "i = j") (simp_all add: list_update_swap)

lemma raw_attr_fixed:
  "raw_attr h baud a = Inr r \<Longrightarrow> raw_attr h baud r = Inr r"
  by (auto simp: raw_attr_Inr list_update_twice)

lemma configure_fault:
  "try_block h p b w = (Inl (Exception e), w1) \<Longrightarrow>
   configure_serial_raw h p b w = (Inl (SystemExit 1), w1\<lparr>stderr := stderr w1 @ [''Error: '' @ str_exn e]\<rparr>)"
  by (simp add: configure_serial_raw_def py_defs)

lemma configure_exit:
  "try_block h p b w = (Inl (SystemExit n), w1) \<Longrightarrow>
   configure_serial_raw h p b w = (Inl (SystemExit n), w1)"
  by (simp add: configure_serial_raw_def)

lemma warned_fields [simp]:
  "nodes (warned h b w) = nodes w" "stderr (warned h b w) = stderr w" "fdtab (warned h b w) = fdtab w"
  "stdout (warned h b w) = stdout w @ (if probe_baudrates h b = None then [warning_line b] else [])"
  by (simp_all add: warned_def)

lemma opened_fields [simp]:
  "nodes (opened p w) = nodes w" "stderr (opened p w) = stderr w" "stdout (opened p w) = stdout w"
  "fdtab (opened p w) = (lowest_free (map fst (fdtab w)), p) # fdtab w"
  by (simp_all add: opened_def)

text \<open>Every run of the try block is one of the following.\<close>

lemma try_block_outcome:
  obtains
    (no_open) e where "try_block h p b w = (Inl (Exception e), w)"
      "nodes w p = None \<or> (\<exists>d m. nodes w p = Some d \<and> open_errno d = Some m)"
  | (not_tty) e d where "nodes w p = Some d" "open_errno d = None" "line d = None"
      "try_block h p b w = (Inl (Exception e), opened p w)"
  | (late) e d a where "nodes w p = Some d" "open_errno d = None" "line d = Some a"
      "try_block h p b w = (Inl (Exception e), warned h b (opened p w))"
      "B h 115200 = None \<or> set_errno d \<noteq> None
       \<or> \<not> (VMIN h < length (cc a) \<and> VTIME h < length (cc a) \<and> length (cc a) = NCCS h)"
  | (success) d a c0 r where "nodes w p = Some d" "open_errno d = None" "line d = Some a"
      "B h 115200 = Some c0" "raw_attr h (resolved_baud h b c0) a = Inr r" "length (cc r) = NCCS h"
      "set_errno d = None"
      "try_block h p b w =
         (Inl (SystemExit 0),
          (warned h b w)\<lparr>nodes := (nodes w)(p \<mapsto> d\<lparr>line := Some r\<rparr>),
                         stdout := stdout (warned h b w) @ confirmation_lines p (effective_rate h b)\<rparr>)"
proof (cases "nodes w p")
  case None
  then show ?thesis using fault_no_such_file[OF None] no_open by blast
next
  case (Some d)
  note d = this
  show ?thesis
  proof (cases "open_errno d")
    case (Some m)
    then show ?thesis using fault_open_refused[OF d Some] no_open d by blast
  next
    case None
    note o = this
    show ?thesis
    proof (cases "line d")
      case None
      then show ?thesis using fault_not_a_terminal[OF d o None] not_tty[OF d o] by blast
    next
      case (Some a)
      note a = this
      show ?thesis
      proof (cases "B h 115200")
        case None
        then show ?thesis using fault_no_B115200[OF d o a None] late[OF d o a] by blast
      next
        case (Some c0)
        note c0 = this
        show ?thesis
        proof (cases "raw_attr h (resolved_baud h b c0) a")
          case (Inl e)
          then have "\<not> (VMIN h < length (cc a) \<and> VTIME h < length (cc a))"
            by (auto simp: raw_attr_def list_setitem_def split: if_splits)
          then show ?thesis using fault_index[OF d o a c0 Inl] late[OF d o a] by blast
        next
          case (Inr r)
          note r = this
          then have len: "length (cc r) = length (cc a)"
            by (auto simp: raw_attr_Inr)
          show ?thesis
          proof (cases "length (cc r) = NCCS h")
            case False
            then show ?thesis using fault_table_length[OF d o a c0 r False] late[OF d o a] len by metis
          next
            case True
            note n = this
            show ?thesis
            proof (cases "set_errno d")
              case None
              then show ?thesis using run_to_exit_0[OF d o a c0 r n None] success[OF d o a c0 r n None] by blast
            next
              case (Some m)
              then show ?thesis using fault_driver[OF d o a c0 r n Some] late[OF d o a] by blast
            qed
          qed
        qed
      qed
    qed
  qed
qed

lemma status_cases:
  "fst (configure_serial_raw h p b w) = Inl (SystemExit 0) \<or> fst (configure_serial_raw h p b w) = Inl (SystemExit 1)"
  by (cases rule: try_block_outcome[of h p b w]) (auto dest: configure_fault configure_exit)

text \<open>What a successful run leaves behind.\<close>

lemma success_char:
  assumes "configure_serial_raw h p b w = (Inl (SystemExit 0), w')"
  obtains d a c0 r where "nodes w p = Some d" "open_errno d = None" "line d = Some a"
      "B h 115200 = Some c0" "raw_attr h (resolved_baud h b c0) a = Inr r" "length (cc r) = NCCS h"
      "set_errno d = None"
      "w' = (warned h b w)\<lparr>nodes := (nodes w)(p \<mapsto> d\<lparr>line := Some r\<rparr>),
                         stdout := stdout (warned h b w) @ confirmation_lines p (effective_rate h b)\<rparr>"
proof (cases rule: try_block_outcome[of h p b w])
  case (no_open e)
  from configure_fault[OF no_open(1)] assms show ?thesis by simp
next
  case (not_tty e d)
  from configure_fault[OF not_tty(4)] assms show ?thesis by simp
next
  case (late e d a)
  from configure_fault[OF late(4)] assms show ?thesis by simp
next
  case (success d a c0 r)
  from configure_exit[OF success(8)] assms that[OF success(1-7)] show ?thesis by simp
qed

lemma success_intro:
  assumes "nodes w p = Some d" "open_errno d = None" "line d = Some a" "B h 115200 = Some c0"
    "VMIN h < length (cc a)" "VTIME h < length (cc a)" "length (cc a) = NCCS h" "set_errno d = None"
  shows "configure_serial_raw h p b w =
          (Inl (SystemExit 0),
           (warned h b w)\<lparr>nodes := (nodes w)(p \<mapsto> d\<lparr>line := Some
                \<lparr>iflag = 0, oflag = 0, cflag = CS8 h OR CREAD h OR CLOCAL h, lflag = 0,
                 ispeed = resolved_baud h b c0, ospeed = resolved_baud h b c0,
                 cc = (cc a)[VMIN h := 0, VTIME h := 0]\<rparr>\<rparr>),
                         stdout := stdout (warned h b w) @ confirmation_lines p (effective_rate h b)\<rparr>)"
proof -
  let ?r = "\<lparr>iflag = 0, oflag = 0, cflag = CS8 h OR CREAD h OR CLOCAL h, lflag = 0,
                 ispeed = resolved_baud h b c0, ospeed = resolved_baud h b c0,
                 cc = (cc a)[VMIN h := 0, VTIME h := 0]\<rparr>"
  have r: "raw_attr h (resolved_baud h b c0) a = Inr ?r"
    using assms(5,6) by (simp add: raw_attr_Inr)
  have n: "length (cc ?r) = NCCS h"
    using assms(7) by simp
  show ?thesis
    using configure_exit[OF run_to_exit_0[OF assms(1-4) r n assms(8)]] by simp
qed

text \<open>What a failed run leaves behind.\<close>

lemma failure_char:
  assumes "configure_serial_raw h p b w = (Inl (SystemExit 1), w')"
  obtains e w1 where "try_block h p b w = (Inl (Exception e), w1)"
    "w' = w1\<lparr>stderr := stderr w1 @ [''Error: '' @ str_exn e]\<rparr>"
    "nodes w1 = nodes w" "stderr w1 = stderr w"
    "stdout w1 = stdout w \<or> stdout w1 = stdout w @ [warning_line b]"
    "fdtab w1 = fdtab w \<or> fdtab w1 = (lowest_free (map fst (fdtab w)), p) # fdtab w"
proof (cases rule: try_block_outcome[of h p b w])
  case (no_open e)
  from configure_fault[OF no_open(1)] assms that[OF no_open(1)] show ?thesis by simp
next
  case (not_tty e d)
  from configure_fault[OF not_tty(4)] assms that[OF not_tty(4)] show ?thesis by simp
next
  case (late e d a)
  from configure_fault[OF late(4)] assms that[OF late(4)] show ?thesis by (simp split: if_splits)
next
  case (success d a c0 r)
  from configure_exit[OF success(8)] assms show ?thesis by simp
qed

lemma probe_effective:
  "probe_baudrates h b = None \<Longrightarrow> effective_rate h b = 115200"
  "probe_baudrates h b = Some c \<Longrightarrow> effective_rate h b = b"
  by (simp_all add: effective_rate_def)

lemma resolved_supported:
  "probe_baudrates h b = Some c \<Longrightarrow> resolved_baud h b c0 = c"
  by (simp add: resolved_baud_def effective_rate_def)

lemma resolved_unsupported:
  "probe_baudrates h b = None \<Longrightarrow> B h 115200 = Some c0 \<Longrightarrow> resolved_baud h b c0 = c0"
  by (simp add: resolved_baud_def effective_rate_def probe_baudrates_eq candidate_rates_def)

lemma applied_after:
  "applied (w\<lparr>nodes := (nodes w0)(p \<mapsto> d\<lparr>line := Some r\<rparr>), stdout := s\<rparr>) p = Some r"
  by (simp add: applied_def)

lemma success_iff_ready:
  "fst (configure_serial_raw h p b w) = Inl (SystemExit 0) \<longleftrightarrow> ready h p w"
proof
  assume "fst (configure_serial_raw h p b w) = Inl (SystemExit 0)"
  then have "configure_serial_raw h p b w = (Inl (SystemExit 0), snd (configure_serial_raw h p b w))"
    by (simp add: prod_eq_iff)
  then show "ready h p w"
    by (rule success_char) (auto simp: ready_def raw_attr_Inr)
next
  assume "ready h p w"
  then obtain d a c0 where "nodes w p = Some d" "open_errno d = None" "line d = Some a" "B h 115200 = Some c0"
    "VMIN h < length (cc a)" "VTIME h < length (cc a)" "length (cc a) = NCCS h" "set_errno d = None"
    by (auto simp: ready_def split: option.splits)
  from success_intro[OF this] show "fst (configure_serial_raw h p b w) = Inl (SystemExit 0)"
    by simp
qed

lemma failure_keeps_nodes:
  assumes "fst (configure_serial_raw h p b w) \<noteq> Inl (SystemExit 0)"
  shows "nodes (snd (configure_serial_raw h p b w)) = nodes w"
proof -
  from assms status_cases[of h p b w]
  have "configure_serial_raw h p b w = (Inl (SystemExit 1), snd (configure_serial_raw h p b w))"
    by (simp add: prod_eq_iff)
  then show ?thesis
    by (rule failure_char) simp
qed

lemma ready_cong:
  "nodes w1 p = nodes w p \<Longrightarrow> ready h p w1 = ready h p w"
  by (simp add: ready_def)

lemma second_run:
  assumes "configure_serial_raw h p b w = (Inl (SystemExit 0), w1)"
  shows "fst (configure_serial_raw h p b w1) = Inl (SystemExit 0)
         \<and> nodes (snd (configure_serial_raw h p b w1)) = nodes w1"
proof -
  from assms obtain d a c0 r where
    d: "nodes w p = Some d" "open_errno d = None" "set_errno d = None" and
    c0: "B h 115200 = Some c0" and
    r: "raw_attr h (resolved_baud h b c0) a = Inr r" "length (cc r) = NCCS h" and
    w1: "w1 = (warned h b w)\<lparr>nodes := (nodes w)(p \<mapsto> d\<lparr>line := Some r\<rparr>),
                 stdout := stdout (warned h b w) @ confirmation_lines p (effective_rate h b)\<rparr>"
    by (rule success_char)
  define d1 where "d1 = d\<lparr>line := Some r\<rparr>"
  have n1: "nodes w1 p = Some d1"
    by (simp add: w1 d1_def)
  have d1: "open_errno d1 = None" "line d1 = Some r" "set_errno d1 = None"
    by (simp_all add: d1_def d)
  have len: "VMIN h < length (cc r)" "VTIME h < length (cc r)"
    using r(1) by (auto simp: raw_attr_Inr)
  have fixed: "raw_attr h (resolved_baud h b c0) r = Inr r"
    using r(1) by (rule raw_attr_fixed)
  have ready1: "ready h p w1"
    using n1 d1 c0 len r(2) by (simp add: ready_def)
  then have st: "fst (configure_serial_raw h p b w1) = Inl (SystemExit 0)"
    by (simp add: success_iff_ready)
  then have "configure_serial_raw h p b w1 = (Inl (SystemExit 0), snd (configure_serial_raw h p b w1))"
    by (simp add: prod_eq_iff)
  then obtain d2 a2 c2 r2 where
    d2: "nodes w1 p = Some d2" "line d2 = Some a2" and
    c2: "B h 115200 = Some c2" and
    r2: "raw_attr h (resolved_baud h b c2) a2 = Inr r2" and
    w2: "snd (configure_serial_raw h p b w1) =
           (warned h b w1)\<lparr>nodes := (nodes w1)(p \<mapsto> d2\<lparr>line := Some r2\<rparr>),
                 stdout := stdout (warned h b w1) @ confirmation_lines p (effective_rate h b)\<rparr>"
    by (rule success_char)
  from d2 n1 d1 have "d2 = d1" "a2 = r" by simp_all
  moreover from c2 c0 have "c2 = c0" by simp
  ultimately have "r2 = r" using r2 fixed by simp
  have "d2\<lparr>line := Some r2\<rparr> = d1"
    unfolding \<open>r2 = r\<close> \<open>d2 = d1\<close> by (simp add: d1_def)
  then have "nodes (snd (configure_serial_raw h p b w1)) = (nodes w1)(p \<mapsto> d1)"
    unfolding w2 by simp
  also have "\<dots> = nodes w1"
    using n1 by (rule fun_upd_idem)
  finally show ?thesis using st by simp
qed

lemma or3_and_zero:
  "(x OR y OR z) AND q = 0" if "q AND x = 0" "q AND y = 0" "q AND z = 0" for x y z q :: int
  using that by (simp add: and.commute[of _ q] bit.conj_disj_distrib)

lemma boot_ttyS0_succeeds:
  "fst (configure_serial_raw linux ''/dev/ttyS0'' b boot) = Inl (SystemExit 0)"
  using success_intro[of boot "''/dev/ttyS0''" ttyS0 cooked linux 4098 b]
  by (simp add: boot_def ttyS0_def cooked_def linux_def)

lemma configured_run:
  "configure_serial_raw linux ''/dev/ttyS0'' 230400 boot = (Inl (SystemExit 0), configured)"
  using boot_ttyS0_succeeds[of 230400] by (simp add: configured_def prod_eq_iff)

section \<open>Consequences for whole runs\<close>

lemma twice_nodes:
  "nodes (snd (configure_serial_raw h p b (snd (configure_serial_raw h p b w))))
     = nodes (snd (configure_serial_raw h p b w))"
proof (cases "fst (configure_serial_raw h p b w) = Inl (SystemExit 0)")
  case True
  then have "configure_serial_raw h p b w = (Inl (SystemExit 0), snd (configure_serial_raw h p b w))"
    by (simp add: prod_eq_iff)
  from second_run[OF this] show ?thesis by simp
next
  case False
  let ?w1 = "snd (configure_serial_raw h p b w)"
  from False have n: "nodes ?w1 = nodes w"
    by (rule failure_keeps_nodes)
  from False have "\<not> ready h p w"
    by (simp add: success_iff_ready)
  with n have "\<not> ready h p ?w1"
    using ready_cong[of ?w1 p w h] by simp
  then have "fst (configure_serial_raw h p b ?w1) \<noteq> Inl (SystemExit 0)"
    by (simp add: success_iff_ready)
  then show ?thesis
    by (rule failure_keeps_nodes)
qed

lemma host_without_B115200:
  "B h 115200 = None \<Longrightarrow> fst (configure_serial_raw h p b w) = Inl (SystemExit 1)"
  using success_iff_ready[of h p b w] status_cases[of h p b w]
  by (auto simp: ready_def split: option.splits)

lemma warning_when_attributes_read:
  assumes "probe_baudrates h b = None" "nodes w p = Some d" "open_errno d = None" "line d = Some a"
  shows "\<exists>rest. stdout (snd (configure_serial_raw h p b w)) = stdout w @ warning_line b # rest"
proof (cases rule: try_block_outcome[of h p b w])
  case (no_open e)
  with assms show ?thesis by auto
next
  case (not_tty e d')
  with assms show ?thesis by simp
next
  case (late e d' a')
  from configure_fault[OF late(4)] assms(1) show ?thesis by simp
next
  case (success d' a' c0 r)
  from configure_exit[OF success(8)] assms(1) show ?thesis by simp
qed

lemma unsupported_success:
  assumes "probe_baudrates h b = None" "configure_serial_raw h p b w = (Inl (SystemExit 0), w')"
  shows "\<exists>c0 r. B h 115200 = Some c0 \<and> applied w' p = Some r \<and> ispeed r = c0 \<and> ospeed r = c0
           \<and> stdout w' = stdout w @ warning_line b # confirmation_lines p 115200"
proof -
  from assms(2) obtain d a c0 r where
    c0: "B h 115200 = Some c0" and
    r: "raw_attr h (resolved_baud h b c0) a = Inr r" and
    w': "w' = (warned h b w)\<lparr>nodes := (nodes w)(p \<mapsto> d\<lparr>line := Some r\<rparr>),
                 stdout := stdout (warned h b w) @ confirmation_lines p (effective_rate h b)\<rparr>"
    by (rule success_char)
  have "applied w' p = Some r"
    unfolding w' by (rule applied_after)
  moreover from r have "ispeed r = resolved_baud h b c0" "ospeed r = resolved_baud h b c0"
    by (simp_all add: raw_attr_Inr)
  moreover have "resolved_baud h b c0 = c0"
    using assms(1) c0 by (rule resolved_unsupported)
  moreover have "stdout w' = stdout w @ warning_line b # confirmation_lines p 115200"
    using assms(1) by (simp add: w' probe_effective)
  ultimately show ?thesis using c0 by simp
qed

lemma fault_world:
  assumes "try_block h p b w = (Inl (Exception e), w1)"
  shows "nodes w1 = nodes w \<and> stderr w1 = stderr w
         \<and> (stdout w1 = stdout w \<or> stdout w1 = stdout w @ [warning_line b])"
proof (cases rule: try_block_outcome[of h p b w])
  case (no_open e')
  from no_open(1) assms have "w1 = w" by simp
  then show ?thesis by simp
next
  case (not_tty e' d)
  from not_tty(4) assms have "w1 = opened p w" by simp
  then show ?thesis by simp
next
  case (late e' d a)
  from late(4) assms have "w1 = warned h b (opened p w)" by simp
  then show ?thesis by simp
next
  case (success d a c0 r)
  with assms show ?thesis by simp
qed

lemma handle_released_on_success:
  assumes "configure_serial_raw h p b w = (Inl (SystemExit 0), w')"
  shows "fdtab w' = fdtab w"
  using assms by (rule success_char) simp

lemma handle_left_open_on_fault:
  assumes "nodes w p = Some d" "open_errno d = None"
    and "configure_serial_raw h p b w = (Inl (SystemExit 1), w')"
  shows "fdtab w' = (lowest_free (map fst (fdtab w)), p) # fdtab w"
proof (cases rule: try_block_outcome[of h p b w])
  case (no_open e)
  with assms(1,2) show ?thesis by auto
next
  case (not_tty e d')
  from configure_fault[OF not_tty(4)] assms(3) show ?thesis by auto
next
  case (late e d' a)
  from configure_fault[OF late(4)] assms(3) show ?thesis by auto
next
  case (success d' a c0 r)
  from configure_exit[OF success(8)] assms(3) show ?thesis by simp
qed

section \<open>The concrete runs\<close>

lemma str_int_9600: "str_int 9600 = ''9600''"
  by (simp add: str_int_def str_nat.simps digit_char_def)

lemma str_int_115200: "str_int 115200 = ''115200''"
  by (simp add: str_int_def str_nat.simps digit_char_def)

lemma boot_ready: "ready linux ''/dev/ttyS0'' boot"
  by (simp add: ready_def boot_def ttyS0_def cooked_def linux_def)

lemma probe_linux_9600: "probe_baudrates linux 9600 = None"
  by (simp add: probe_baudrates_eq candidate_rates_def)

lemma raw_cooked:
  "raw_attr linux 4099 cooked = Inr raw_230400"
  by (simp add: raw_attr_Inr linux_def cooked_def raw_230400_def)

lemma configured_applied:
  "applied configured ''/dev/ttyS0'' = Some raw_230400"
  unfolding configured_def
  using success_intro[of boot "''/dev/ttyS0''" ttyS0 cooked linux 4098 230400]
  by (simp add: applied_def boot_def ttyS0_def cooked_def linux_def raw_230400_def
      resolved_baud_def effective_rate_def probe_baudrates_eq candidate_rates_def)

lemma boot_b_applied:
  "fst (configure_serial_raw linux ''/dev/ttyS0'' 230400 boot_b) = Inl (SystemExit 0)
   \<and> applied (snd (configure_serial_raw linux ''/dev/ttyS0'' 230400 boot_b)) ''/dev/ttyS0'' = Some raw_230400_b"
  using success_intro[of boot_b "''/dev/ttyS0''" "ttyS0\<lparr>line := Some cooked_b\<rparr>" cooked_b linux 4098 230400]
  by (simp add: applied_def boot_b_def boot_def ttyS0_def cooked_b_def cooked_def linux_def raw_230400_def
      raw_230400_b_def resolved_baud_def effective_rate_def probe_baudrates_eq candidate_rates_def)

lemma lowest_free_boot: "lowest_free (map fst (fdtab boot)) = 3"
  by (simp add: lowest_free_def boot_def upt_rec)

lemma digits_in_run:
  "list_all is_digit cs \<Longrightarrow> takeWhile in_run cs = cs \<and> dropWhile in_run cs = []"
  by (induction cs) (simp_all add: in_run_def)

lemma digits_underscores_ok:
  "list_all is_digit cs \<Longrightarrow> underscores_ok cs"
  by (induction cs rule: underscores_ok.induct) (auto simp: is_digit_def)

lemma digit_props:
  "is_digit c \<Longrightarrow> \<not> is_space c \<and> c \<noteq> CHR ''_'' \<and> c \<noteq> CHR ''-'' \<and> c \<noteq> CHR ''+'' \<and> (of_char c :: nat) < 128"
  by (auto simp: is_digit_def is_space_def)

lemma digits_ascii:
  "list_all is_digit cs \<Longrightarrow> is_ascii cs"
  by (induction cs) (simp_all add: is_ascii_def digit_props)

text \<open>
  Every decimal integer string is accepted by \<^verbatim>\<open>int\<close>, unless it has more digits than
  the limit allows.
\<close>

lemma decimal_integer_string_accepted:
  assumes "decimal_integer_string s"
  shows "(\<exists>i. int_str ip s = Inr i) \<or> (\<exists>n. int_str ip s = Inl (exceeds_limit (int_max_str_digits ip) n))"
proof (cases s)
  case Nil
  with assms show ?thesis by (simp add: decimal_integer_string_def)
next
  case (Cons c cs)
  show ?thesis
  proof (cases "c = CHR ''-'' \<or> c = CHR ''+''")
    case True
    with assms Cons have cs: "cs \<noteq> []" "list_all is_digit cs"
      by (simp_all add: decimal_integer_string_def)
    then obtain d ds where ds: "cs = d # ds" by (cases cs) auto
    from True have sp: "\<not> is_space c" "(of_char c :: nat) < 128"
      by (auto simp: is_space_def)
    from cs(2) sp(2) Cons have a: "is_ascii s"
      using digits_ascii[OF cs(2)] by (simp add: is_ascii_def)
    from cs(2) ds have d: "is_digit d" by simp
    show ?thesis
      using a sp(1) True Cons digits_in_run[OF cs(2)] digits_underscores_ok[OF cs(2)] ds digit_props[OF d]
      by (auto simp: int_str_def int_ascii_def Let_def)
  next
    case False
    with assms Cons have all: "list_all is_digit s"
      by (simp add: decimal_integer_string_def)
    with Cons have c: "is_digit c" by simp
    show ?thesis
      using False Cons digits_ascii[OF all] digits_in_run[OF all] digits_underscores_ok[OF all] digit_props[OF c]
      by (auto simp: int_str_def int_ascii_def Let_def)
  qed
qed






section \<open>The applied attribute record\<close>

text \<open>
  C1. After every successful run (exit status 0) the record the device holds has input,
  output and local flags 0 and control flags exactly \<^verbatim>\<open>CS8 | CREAD | CLOCAL\<close>. The
  parity-enable and two-stop-bits flags are not set in it on every host where
  \<^verbatim>\<open>PARENB\<close> and \<^verbatim>\<open>CSTOPB\<close> share no bit with those three constants (they are
  distinct flag bits of \<^verbatim>\<open>c_cflag\<close>).
\<close>

theorem C1_flags_of_applied_record:
  assumes "configure_serial_raw h port_path baudrate w = (Inl (SystemExit 0), w')"
  shows "\<exists>r. applied w' port_path = Some r
           \<and> iflag r = 0 \<and> oflag r = 0 \<and> lflag r = 0
           \<and> cflag r = CS8 h OR CREAD h OR CLOCAL h
           \<and> (PARENB h AND CS8 h = 0 \<and> PARENB h AND CREAD h = 0 \<and> PARENB h AND CLOCAL h = 0
                \<longrightarrow> cflag r AND PARENB h = 0)
           \<and> (CSTOPB h AND CS8 h = 0 \<and> CSTOPB h AND CREAD h = 0 \<and> CSTOPB h AND CLOCAL h = 0
                \<longrightarrow> cflag r AND CSTOPB h = 0)"
proof -
  from assms obtain d a c0 r where
    r: "raw_attr h (resolved_baud h baudrate c0) a = Inr r" and
    w': "w' = (warned h baudrate w)\<lparr>nodes := (nodes w)(port_path \<mapsto> d\<lparr>line := Some r\<rparr>),
                 stdout := stdout (warned h baudrate w) @ confirmation_lines port_path (effective_rate h baudrate)\<rparr>"
    by (rule success_char)
  have "applied w' port_path = Some r"
    unfolding w' by (rule applied_after)
  moreover from r have "iflag r = 0" "oflag r = 0" "lflag r = 0" "cflag r = CS8 h OR CREAD h OR CLOCAL h"
    by (simp_all add: raw_attr_Inr)
  ultimately show ?thesis by (simp add: or3_and_zero)
qed

theorem C1_flags_of_applied_record_witness:
  "configure_serial_raw linux ''/dev/ttyS0'' 230400 boot = (Inl (SystemExit 0), configured)
   \<and> iflag (the (applied configured ''/dev/ttyS0'')) = 0
   \<and> oflag (the (applied configured ''/dev/ttyS0'')) = 0
   \<and> lflag (the (applied configured ''/dev/ttyS0'')) = 0
   \<and> cflag (the (applied configured ''/dev/ttyS0'')) = 2224
   \<and> cflag (the (applied configured ''/dev/ttyS0'')) AND PARENB linux = 0
   \<and> cflag (the (applied configured ''/dev/ttyS0'')) AND CSTOPB linux = 0"
proof -
  from C1_flags_of_applied_record[OF configured_run] obtain r where
    "applied configured ''/dev/ttyS0'' = Some r" "iflag r = 0" "oflag r = 0" "lflag r = 0"
    "cflag r = CS8 linux OR CREAD linux OR CLOCAL linux"
    "PARENB linux AND CS8 linux = 0 \<and> PARENB linux AND CREAD linux = 0 \<and> PARENB linux AND CLOCAL linux = 0
       \<longrightarrow> cflag r AND PARENB linux = 0"
    "CSTOPB linux AND CS8 linux = 0 \<and> CSTOPB linux AND CREAD linux = 0 \<and> CSTOPB linux AND CLOCAL linux = 0
       \<longrightarrow> cflag r AND CSTOPB linux = 0"
    by blast
  then show ?thesis
    using configured_run by (simp add: linux_def)
qed

text \<open>
  C2. After every successful run the control-character table of the record the device
  holds has the entries \<^verbatim>\<open>VMIN\<close> and \<^verbatim>\<open>VTIME\<close>, and both are 0.
\<close>

theorem C2_vmin_vtime_zero:
  assumes "configure_serial_raw h port_path baudrate w = (Inl (SystemExit 0), w')"
  shows "\<exists>r. applied w' port_path = Some r
           \<and> VMIN h < length (cc r) \<and> VTIME h < length (cc r)
           \<and> cc r ! VMIN h = 0 \<and> cc r ! VTIME h = 0"
proof -
  from assms obtain d a c0 r where
    r: "raw_attr h (resolved_baud h baudrate c0) a = Inr r" and
    w': "w' = (warned h baudrate w)\<lparr>nodes := (nodes w)(port_path \<mapsto> d\<lparr>line := Some r\<rparr>),
                 stdout := stdout (warned h baudrate w) @ confirmation_lines port_path (effective_rate h baudrate)\<rparr>"
    by (rule success_char)
  have "applied w' port_path = Some r"
    unfolding w' by (rule applied_after)
  moreover from r have "VMIN h < length (cc r)" "VTIME h < length (cc r)"
    "cc r ! VMIN h = 0" "cc r ! VTIME h = 0"
    by (auto simp: raw_attr_Inr nth_list_update)
  ultimately show ?thesis by simp
qed

theorem C2_vmin_vtime_zero_witness:
  "configure_serial_raw linux ''/dev/ttyS0'' 230400 boot = (Inl (SystemExit 0), configured)
   \<and> cc cooked ! 6 = 1
   \<and> cc (the (applied configured ''/dev/ttyS0'')) ! 6 = 0
   \<and> cc (the (applied configured ''/dev/ttyS0'')) ! 5 = 0"
proof -
  from C2_vmin_vtime_zero[OF configured_run] obtain r where
    "applied configured ''/dev/ttyS0'' = Some r" "cc r ! VMIN linux = 0" "cc r ! VTIME linux = 0"
    by blast
  then show ?thesis
    using configured_run by (simp add: linux_def cooked_def)
qed

text \<open>
  C3. When the requested rate is one of 115200, 230400, 460800, 921600 and the host
  defines its constant, a successful run leaves that constant in both speed fields of
  the record the device holds.
\<close>

theorem C3_speed_is_requested_constant:
  assumes "configure_serial_raw h port_path baudrate w = (Inl (SystemExit 0), w')"
    and "baudrate \<in> {115200, 230400, 460800, 921600}"
    and "B h baudrate = Some c"
  shows "\<exists>r. applied w' port_path = Some r \<and> ispeed r = c \<and> ospeed r = c"
proof -
  from assms(1) obtain d a c0 r where
    r: "raw_attr h (resolved_baud h baudrate c0) a = Inr r" and
    w': "w' = (warned h baudrate w)\<lparr>nodes := (nodes w)(port_path \<mapsto> d\<lparr>line := Some r\<rparr>),
                 stdout := stdout (warned h baudrate w) @ confirmation_lines port_path (effective_rate h baudrate)\<rparr>"
    by (rule success_char)
  have "applied w' port_path = Some r"
    unfolding w' by (rule applied_after)
  moreover from r have "ispeed r = resolved_baud h baudrate c0" "ospeed r = resolved_baud h baudrate c0"
    by (simp_all add: raw_attr_Inr)
  moreover from assms(2,3) have "probe_baudrates h baudrate = Some c"
    by (simp add: probe_baudrates_eq candidate_rates_def)
  then have "resolved_baud h baudrate c0 = c"
    by (rule resolved_supported)
  ultimately show ?thesis by simp
qed

theorem C3_speed_is_requested_constant_witness:
  "configure_serial_raw linux ''/dev/ttyS0'' 230400 boot = (Inl (SystemExit 0), configured)
   \<and> (230400::int) \<in> {115200, 230400, 460800, 921600}
   \<and> B linux 230400 = Some 4099
   \<and> ispeed (the (applied configured ''/dev/ttyS0'')) = 4099
   \<and> ospeed (the (applied configured ''/dev/ttyS0'')) = 4099"
proof -
  have b: "(230400::int) \<in> {115200, 230400, 460800, 921600}" by simp
  have c: "B linux 230400 = Some 4099" by (simp add: linux_def)
  from C3_speed_is_requested_constant[OF configured_run b c] obtain r where
    "applied configured ''/dev/ttyS0'' = Some r" "ispeed r = 4099" "ospeed r = 4099"
    by blast
  then show ?thesis
    using configured_run c by simp
qed

section \<open>Unsupported rates and faults\<close>

text \<open>
  C4. Let the requested rate be outside the dictionary \<^verbatim>\<open>baudrates\<close>. Once the
  attributes have been read, the warning line is the next line on standard output. The
  exit status does not depend on the requested rate: if the run with any other rate
  ends with status 0, so does this one. And whenever the device and the host allow a
  run to succeed at all (\<open>ready\<close>), this run ends with status 0, has put the constant
  \<^verbatim>\<open>termios.B115200\<close> into both speed fields, and has printed the warning followed by
  the four confirmation lines that report 115200.

  The default of line 29 is evaluated in every run, so on a host whose \<^verbatim>\<open>termios\<close>
  has no \<^verbatim>\<open>B115200\<close> every run ends with status 1, whatever rate is requested
  (\<open>host_without_B115200\<close>).
\<close>

theorem C4_unsupported_rate_degrades:
  assumes "probe_baudrates h baudrate = None"
  shows "(nodes w port_path = Some d \<and> open_errno d = None \<and> line d = Some a
            \<longrightarrow> (\<exists>rest. stdout (snd (configure_serial_raw h port_path baudrate w))
                          = stdout w @ warning_line baudrate # rest))
       \<and> (fst (configure_serial_raw h port_path other w) = Inl (SystemExit 0)
            \<longrightarrow> fst (configure_serial_raw h port_path baudrate w) = Inl (SystemExit 0))
       \<and> (ready h port_path w
            \<longrightarrow> (\<exists>w' c0 r. configure_serial_raw h port_path baudrate w = (Inl (SystemExit 0), w')
                   \<and> B h 115200 = Some c0 \<and> applied w' port_path = Some r
                   \<and> ispeed r = c0 \<and> ospeed r = c0
                   \<and> stdout w' = stdout w @ warning_line baudrate # confirmation_lines port_path 115200))"
proof (intro conjI impI)
  assume "nodes w port_path = Some d \<and> open_errno d = None \<and> line d = Some a"
  with assms show "\<exists>rest. stdout (snd (configure_serial_raw h port_path baudrate w))
                          = stdout w @ warning_line baudrate # rest"
    by (auto intro: warning_when_attributes_read)
next
  assume "fst (configure_serial_raw h port_path other w) = Inl (SystemExit 0)"
  then show "fst (configure_serial_raw h port_path baudrate w) = Inl (SystemExit 0)"
    by (simp add: success_iff_ready)
next
  assume "ready h port_path w"
  then have "fst (configure_serial_raw h port_path baudrate w) = Inl (SystemExit 0)"
    by (simp add: success_iff_ready)
  then have run: "configure_serial_raw h port_path baudrate w
                    = (Inl (SystemExit 0), snd (configure_serial_raw h port_path baudrate w))"
    by (simp add: prod_eq_iff)
  from unsupported_success[OF assms run] run
  show "\<exists>w' c0 r. configure_serial_raw h port_path baudrate w = (Inl (SystemExit 0), w')
                   \<and> B h 115200 = Some c0 \<and> applied w' port_path = Some r
                   \<and> ispeed r = c0 \<and> ospeed r = c0
                   \<and> stdout w' = stdout w @ warning_line baudrate # confirmation_lines port_path 115200"
    by blast
qed

theorem C4_unsupported_rate_degrades_witness:
  "probe_baudrates linux 9600 = None \<and> B linux 9600 = Some 13
   \<and> nodes boot ''/dev/ttyS0'' = Some ttyS0 \<and> open_errno ttyS0 = None \<and> line ttyS0 = Some cooked
   \<and> fst (configure_serial_raw linux ''/dev/ttyS0'' 230400 boot) = Inl (SystemExit 0)
   \<and> ready linux ''/dev/ttyS0'' boot
   \<and> fst (configure_serial_raw linux ''/dev/ttyS0'' 9600 boot) = Inl (SystemExit 0)
   \<and> stdout (snd (configure_serial_raw linux ''/dev/ttyS0'' 9600 boot))
        = [''Warning: Baudrate 9600 not available, using 115200'',
           ''[configure-serial] Configured /dev/ttyS0 for raw binary mode'',
           ''[configure-serial] Baud rate: 115200'',
           ''[configure-serial] iflag=0, oflag=0, lflag=0 (all processing disabled)'',
           ''[configure-serial] VMIN=0, VTIME=0 (non-blocking)'']
   \<and> ispeed (the (applied (snd (configure_serial_raw linux ''/dev/ttyS0'' 9600 boot)) ''/dev/ttyS0'')) = 4098
   \<and> ospeed (the (applied (snd (configure_serial_raw linux ''/dev/ttyS0'' 9600 boot)) ''/dev/ttyS0'')) = 4098"
proof -
  have n: "nodes boot ''/dev/ttyS0'' = Some ttyS0 \<and> open_errno ttyS0 = None \<and> line ttyS0 = Some cooked"
    by (simp add: boot_def ttyS0_def)
  note c4 = C4_unsupported_rate_degrades[OF probe_linux_9600, of boot "''/dev/ttyS0''" ttyS0 cooked 230400]
  from c4 boot_ready obtain w' c0 r where
    run: "configure_serial_raw linux ''/dev/ttyS0'' 9600 boot = (Inl (SystemExit 0), w')" and
    r: "B linux 115200 = Some c0" "applied w' ''/dev/ttyS0'' = Some r" "ispeed r = c0" "ospeed r = c0" and
    out: "stdout w' = stdout boot @ warning_line 9600 # confirmation_lines ''/dev/ttyS0'' 115200"
    by blast
  from r(1) have "c0 = 4098" by (simp add: linux_def)
  with run r out n boot_ready probe_linux_9600 boot_ttyS0_succeeds[of 230400] show ?thesis
    by (simp add: warning_line_def confirmation_lines_def str_int_9600 str_int_115200 boot_def linux_def)
qed

text \<open>
  C5. Whenever the try block raises an exception \<open>e\<close>, the procedure appends exactly
  the line \<^verbatim>\<open>Error: \<close> followed by \<^verbatim>\<open>str(e)\<close> to the error stream and ends with
  status 1; no device has changed and standard output has gained at most the warning
  line, none of the confirmation lines. Status 1 arises in no other way. On a path that
  does not exist the line reports \<^verbatim>\<open>[Errno 2]\<close> and standard output is untouched.
\<close>

theorem C5_fault_prints_error_and_exits_1:
  "(try_block h port_path baudrate w = (Inl (Exception e), w1)
      \<longrightarrow> configure_serial_raw h port_path baudrate w
            = (Inl (SystemExit 1), w1\<lparr>stderr := stderr w @ [''Error: '' @ str_exn e]\<rparr>)
          \<and> nodes w1 = nodes w
          \<and> (stdout w1 = stdout w \<or> stdout w1 = stdout w @ [warning_line baudrate]))
   \<and> (fst (configure_serial_raw h port_path baudrate w) = Inl (SystemExit 1)
        \<longleftrightarrow> (\<exists>e w1. try_block h port_path baudrate w = (Inl (Exception e), w1)))
   \<and> (nodes w port_path = None
        \<longrightarrow> configure_serial_raw h port_path baudrate w
            = (Inl (SystemExit 1),
               w\<lparr>stderr := stderr w @ [''Error: [Errno 2] No such file or directory: ''
                                          @ apostrophe @ port_path @ apostrophe]\<rparr>))"
proof (intro conjI impI)
  assume t: "try_block h port_path baudrate w = (Inl (Exception e), w1)"
  from fault_world[OF t] configure_fault[OF t]
  show "configure_serial_raw h port_path baudrate w
            = (Inl (SystemExit 1), w1\<lparr>stderr := stderr w @ [''Error: '' @ str_exn e]\<rparr>)"
    by simp
  from fault_world[OF t] show "nodes w1 = nodes w" by simp
  from fault_world[OF t] show "stdout w1 = stdout w \<or> stdout w1 = stdout w @ [warning_line baudrate]" by simp
next
  show "fst (configure_serial_raw h port_path baudrate w) = Inl (SystemExit 1)
        \<longleftrightarrow> (\<exists>e w1. try_block h port_path baudrate w = (Inl (Exception e), w1))"
  proof
    assume "fst (configure_serial_raw h port_path baudrate w) = Inl (SystemExit 1)"
    then have "configure_serial_raw h port_path baudrate w
                 = (Inl (SystemExit 1), snd (configure_serial_raw h port_path baudrate w))"
      by (simp add: prod_eq_iff)
    then show "\<exists>e w1. try_block h port_path baudrate w = (Inl (Exception e), w1)"
      by (rule failure_char) blast
  next
    assume "\<exists>e w1. try_block h port_path baudrate w = (Inl (Exception e), w1)"
    then show "fst (configure_serial_raw h port_path baudrate w) = Inl (SystemExit 1)"
      by (auto dest: configure_fault)
  qed
next
  assume "nodes w port_path = None"
  from configure_fault[OF fault_no_such_file[OF this]]
  show "configure_serial_raw h port_path baudrate w
            = (Inl (SystemExit 1),
               w\<lparr>stderr := stderr w @ [''Error: [Errno 2] No such file or directory: ''
                                          @ apostrophe @ port_path @ apostrophe]\<rparr>)"
    by simp
qed

theorem C5_fault_prints_error_and_exits_1_witness:
  "nodes boot ''/dev/ttyUSB9'' = None
   \<and> try_block linux ''/dev/ttyUSB9'' 115200 boot
       = (Inl (Exception (OSError (''[Errno 2] No such file or directory: '' @ apostrophe @ ''/dev/ttyUSB9'' @ apostrophe))), boot)
   \<and> fst (configure_serial_raw linux ''/dev/ttyUSB9'' 115200 boot) = Inl (SystemExit 1)
   \<and> stderr (snd (configure_serial_raw linux ''/dev/ttyUSB9'' 115200 boot))
       = [''Error: [Errno 2] No such file or directory: '' @ apostrophe @ ''/dev/ttyUSB9'' @ apostrophe]
   \<and> stdout (snd (configure_serial_raw linux ''/dev/ttyUSB9'' 115200 boot)) = []"
proof -
  have n: "nodes boot ''/dev/ttyUSB9'' = None"
    by (simp add: boot_def)
  note t = fault_no_such_file[OF n, of linux 115200]
  from C5_fault_prints_error_and_exits_1[of linux "''/dev/ttyUSB9''" 115200 boot] n t
  show ?thesis
    by (simp add: boot_def)
qed

section \<open>Repetition and dependence on the old attributes\<close>

text \<open>
  C6. Running the procedure twice in succession with the same arguments leaves every
  device with the attributes it has after the first run, from every starting world; a
  second run after a successful one succeeds again; and the overwrite of lines 32 to 51
  maps its own result to itself.
\<close>

theorem C6_idempotent:
  "nodes (twice h port_path baudrate w) = nodes (snd (configure_serial_raw h port_path baudrate w))
   \<and> (\<forall>p. applied (twice h port_path baudrate w) p
             = applied (snd (configure_serial_raw h port_path baudrate w)) p)
   \<and> (fst (configure_serial_raw h port_path baudrate w) = Inl (SystemExit 0)
        \<longrightarrow> fst (configure_serial_raw h port_path baudrate (snd (configure_serial_raw h port_path baudrate w)))
            = Inl (SystemExit 0))
   \<and> (raw_attr h baud attrs = Inr r \<longrightarrow> raw_attr h baud r = Inr r)"
proof (intro conjI impI allI)
  show n: "nodes (twice h port_path baudrate w) = nodes (snd (configure_serial_raw h port_path baudrate w))"
    unfolding twice_def by (rule twice_nodes)
  show "applied (twice h port_path baudrate w) p
          = applied (snd (configure_serial_raw h port_path baudrate w)) p" for p
    by (simp add: applied_def n)
next
  assume "fst (configure_serial_raw h port_path baudrate w) = Inl (SystemExit 0)"
  then have "configure_serial_raw h port_path baudrate w
               = (Inl (SystemExit 0), snd (configure_serial_raw h port_path baudrate w))"
    by (simp add: prod_eq_iff)
  from second_run[OF this]
  show "fst (configure_serial_raw h port_path baudrate (snd (configure_serial_raw h port_path baudrate w)))
            = Inl (SystemExit 0)"
    by simp
next
  assume "raw_attr h baud attrs = Inr r"
  then show "raw_attr h baud r = Inr r"
    by (rule raw_attr_fixed)
qed

theorem C6_idempotent_witness:
  "fst (configure_serial_raw linux ''/dev/ttyS0'' 230400 boot) = Inl (SystemExit 0)
   \<and> fst (configure_serial_raw linux ''/dev/ttyS0'' 230400 configured) = Inl (SystemExit 0)
   \<and> applied boot ''/dev/ttyS0'' = Some cooked
   \<and> applied configured ''/dev/ttyS0'' = Some raw_230400
   \<and> applied (twice linux ''/dev/ttyS0'' 230400 boot) ''/dev/ttyS0'' = Some raw_230400
   \<and> raw_attr linux 4099 cooked = Inr raw_230400
   \<and> raw_attr linux 4099 raw_230400 = Inr raw_230400"
proof -
  note c6 = C6_idempotent[of linux "''/dev/ttyS0''" 230400 boot 4099 cooked raw_230400]
  have s: "fst (configure_serial_raw linux ''/dev/ttyS0'' 230400 boot) = Inl (SystemExit 0)"
    using configured_run by simp
  have a0: "applied boot ''/dev/ttyS0'' = Some cooked"
    by (simp add: applied_def boot_def ttyS0_def)
  from c6 s have "fst (configure_serial_raw linux ''/dev/ttyS0'' 230400 configured) = Inl (SystemExit 0)"
    by (simp add: configured_def)
  moreover from c6 have "applied (twice linux ''/dev/ttyS0'' 230400 boot) ''/dev/ttyS0'' = Some raw_230400"
    using configured_applied by (simp add: configured_def)
  moreover from c6 raw_cooked have "raw_attr linux 4099 raw_230400 = Inr raw_230400"
    by blast
  ultimately show ?thesis
    using s a0 configured_applied raw_cooked by simp
qed

text \<open>
  C7, as stated, fails: two terminals that differ in their interrupt character
  (entry 0 of the table) are both configured at 230400 with success, and the records
  they hold afterwards differ in that entry.
\<close>

theorem C7_applied_record_depends_on_old_table:
  "fst (configure_serial_raw linux ''/dev/ttyS0'' 230400 boot) = Inl (SystemExit 0)
   \<and> fst (configure_serial_raw linux ''/dev/ttyS0'' 230400 boot_b) = Inl (SystemExit 0)
   \<and> applied (snd (configure_serial_raw linux ''/dev/ttyS0'' 230400 boot)) ''/dev/ttyS0''
      \<noteq> applied (snd (configure_serial_raw linux ''/dev/ttyS0'' 230400 boot_b)) ''/dev/ttyS0''"
proof -
  have ne: "cc raw_230400 ! 0 \<noteq> cc raw_230400_b ! 0"
    by (simp add: raw_230400_b_def raw_230400_def)
  have "raw_230400 \<noteq> raw_230400_b"
  proof
    assume "raw_230400 = raw_230400_b"
    then have "cc raw_230400 ! 0 = cc raw_230400_b ! 0"
      by (rule arg_cong)
    with ne show False ..
  qed
  moreover have "fst (configure_serial_raw linux ''/dev/ttyS0'' 230400 boot) = Inl (SystemExit 0)"
    "snd (configure_serial_raw linux ''/dev/ttyS0'' 230400 boot) = configured"
    using configured_run by simp_all
  ultimately show ?thesis
    using boot_b_applied configured_applied by simp
qed

text \<open>
  C7, amended. Two successful runs with the same requested rate on the same host leave
  records that agree in the four flag words, in both speeds and in the entries
  \<^verbatim>\<open>VMIN\<close> and \<^verbatim>\<open>VTIME\<close>; the rest of each table is the table read before, so the
  two records are equal exactly when the old tables agree outside those two entries.
\<close>

theorem C7_same_rate_same_profile:
  assumes "configure_serial_raw h port_path baudrate w1 = (Inl (SystemExit 0), w1')"
    and "configure_serial_raw h port_path baudrate w2 = (Inl (SystemExit 0), w2')"
  shows "\<exists>a1 a2 r1 r2.
           applied w1 port_path = Some a1 \<and> applied w2 port_path = Some a2
         \<and> applied w1' port_path = Some r1 \<and> applied w2' port_path = Some r2
         \<and> iflag r1 = iflag r2 \<and> oflag r1 = oflag r2 \<and> cflag r1 = cflag r2 \<and> lflag r1 = lflag r2
         \<and> ispeed r1 = ispeed r2 \<and> ospeed r1 = ospeed r2
         \<and> cc r1 ! VMIN h = cc r2 ! VMIN h \<and> cc r1 ! VTIME h = cc r2 ! VTIME h
         \<and> cc r1 = (cc a1)[VMIN h := 0, VTIME h := 0]
         \<and> cc r2 = (cc a2)[VMIN h := 0, VTIME h := 0]
         \<and> (r1 = r2 \<longleftrightarrow> (cc a1)[VMIN h := 0, VTIME h := 0] = (cc a2)[VMIN h := 0, VTIME h := 0])"
proof -
  from assms(1) obtain d1 a1 c1 r1 where
    d1: "nodes w1 port_path = Some d1" "line d1 = Some a1" and
    c1: "B h 115200 = Some c1" and
    r1: "raw_attr h (resolved_baud h baudrate c1) a1 = Inr r1" and
    w1': "w1' = (warned h baudrate w1)\<lparr>nodes := (nodes w1)(port_path \<mapsto> d1\<lparr>line := Some r1\<rparr>),
                 stdout := stdout (warned h baudrate w1) @ confirmation_lines port_path (effective_rate h baudrate)\<rparr>"
    by (rule success_char)
  from assms(2) obtain d2 a2 c2 r2 where
    d2: "nodes w2 port_path = Some d2" "line d2 = Some a2" and
    c2: "B h 115200 = Some c2" and
    r2: "raw_attr h (resolved_baud h baudrate c2) a2 = Inr r2" and
    w2': "w2' = (warned h baudrate w2)\<lparr>nodes := (nodes w2)(port_path \<mapsto> d2\<lparr>line := Some r2\<rparr>),
                 stdout := stdout (warned h baudrate w2) @ confirmation_lines port_path (effective_rate h baudrate)\<rparr>"
    by (rule success_char)
  from c1 c2 have c: "c2 = c1" by simp
  have e1: "r1 = \<lparr>iflag = 0, oflag = 0, cflag = CS8 h OR CREAD h OR CLOCAL h, lflag = 0,
                  ispeed = resolved_baud h baudrate c1, ospeed = resolved_baud h baudrate c1,
                  cc = (cc a1)[VMIN h := 0, VTIME h := 0]\<rparr>"
    and l1: "VMIN h < length (cc a1)" "VTIME h < length (cc a1)"
    using r1 by (simp_all add: raw_attr_Inr)
  have e2: "r2 = \<lparr>iflag = 0, oflag = 0, cflag = CS8 h OR CREAD h OR CLOCAL h, lflag = 0,
                  ispeed = resolved_baud h baudrate c1, ospeed = resolved_baud h baudrate c1,
                  cc = (cc a2)[VMIN h := 0, VTIME h := 0]\<rparr>"
    and l2: "VMIN h < length (cc a2)" "VTIME h < length (cc a2)"
    using r2 unfolding c by (simp_all add: raw_attr_Inr)
  have "applied w1 port_path = Some a1" "applied w2 port_path = Some a2"
    using d1 d2 by (simp_all add: applied_def)
  moreover have "applied w1' port_path = Some r1" "applied w2' port_path = Some r2"
    unfolding w1' w2' by (rule applied_after)+
  moreover have "cc r1 ! VMIN h = cc r2 ! VMIN h" "cc r1 ! VTIME h = cc r2 ! VTIME h"
    using l1 l2 by (simp_all add: e1 e2 nth_list_update)
  moreover have "iflag r1 = iflag r2" "oflag r1 = oflag r2" "cflag r1 = cflag r2" "lflag r1 = lflag r2"
    "ispeed r1 = ispeed r2" "ospeed r1 = ospeed r2"
    "cc r1 = (cc a1)[VMIN h := 0, VTIME h := 0]" "cc r2 = (cc a2)[VMIN h := 0, VTIME h := 0]"
    by (simp_all add: e1 e2)
  moreover have "r1 = r2 \<longleftrightarrow> (cc a1)[VMIN h := 0, VTIME h := 0] = (cc a2)[VMIN h := 0, VTIME h := 0]"
    by (simp add: e1 e2)
  ultimately show ?thesis by blast
qed

theorem C7_same_rate_same_profile_witness:
  "configure_serial_raw linux ''/dev/ttyS0'' 230400 boot = (Inl (SystemExit 0), configured)
   \<and> fst (configure_serial_raw linux ''/dev/ttyS0'' 230400 boot_b) = Inl (SystemExit 0)
   \<and> applied boot ''/dev/ttyS0'' = Some cooked \<and> applied boot_b ''/dev/ttyS0'' = Some cooked_b
   \<and> cflag raw_230400 = cflag raw_230400_b \<and> ispeed raw_230400 = ispeed raw_230400_b
   \<and> cc raw_230400 ! VMIN linux = cc raw_230400_b ! VMIN linux
   \<and> cc raw_230400 ! 0 = 3 \<and> cc raw_230400_b ! 0 = 99"
proof -
  have run_b: "configure_serial_raw linux ''/dev/ttyS0'' 230400 boot_b
                 = (Inl (SystemExit 0), snd (configure_serial_raw linux ''/dev/ttyS0'' 230400 boot_b))"
    using boot_b_applied by (simp add: prod_eq_iff)
  from C7_same_rate_same_profile[OF configured_run run_b] configured_applied boot_b_applied
  have "cflag raw_230400 = cflag raw_230400_b" "ispeed raw_230400 = ispeed raw_230400_b"
    "cc raw_230400 ! VMIN linux = cc raw_230400_b ! VMIN linux"
    by auto
  moreover have "applied boot ''/dev/ttyS0'' = Some cooked" "applied boot_b ''/dev/ttyS0'' = Some cooked_b"
    by (simp_all add: applied_def boot_def boot_b_def ttyS0_def)
  moreover have "cc raw_230400 ! 0 = 3" "cc raw_230400_b ! 0 = 99"
    by (simp_all add: raw_230400_def raw_230400_b_def)
  ultimately show ?thesis
    using configured_run boot_b_applied by simp
qed

section \<open>The descriptor\<close>

text \<open>
  C8. On the success path the descriptor is closed before \<^verbatim>\<open>sys.exit(0)\<close>
  (\<open>handle_released_on_success\<close>). The handler of line 61 does not close it: after
  every fault that follows a successful open the descriptor is still in the table when
  the procedure ends (\<open>handle_left_open_on_fault\<close>). The run on \<^verbatim>\<open>/dev/null\<close>, which
  opens but is no terminal, shows it: descriptor 3 stays open.
\<close>

theorem C8_fault_after_open_leaves_handle_open:
  "configure_serial_raw linux ''/dev/null'' 115200 boot
     = (Inl (SystemExit 1),
        boot\<lparr>fdtab := (3, ''/dev/null'') # fdtab boot,
             stderr := [''Error: (25, '' @ apostrophe @ ''Inappropriate ioctl for device'' @ apostrophe @ '')'']\<rparr>)
   \<and> fdtab (snd (configure_serial_raw linux ''/dev/ttyS0'' 115200 boot)) = fdtab boot"
proof -
  have n: "nodes boot ''/dev/null'' = Some dev_null" "open_errno dev_null = None" "line dev_null = None"
    by (simp_all add: boot_def dev_null_def)
  from configure_fault[OF fault_not_a_terminal[OF n, of linux 115200]]
  have "configure_serial_raw linux ''/dev/null'' 115200 boot
     = (Inl (SystemExit 1),
        boot\<lparr>fdtab := (3, ''/dev/null'') # fdtab boot,
             stderr := [''Error: (25, '' @ apostrophe @ ''Inappropriate ioctl for device'' @ apostrophe @ '')'']\<rparr>)"
    by (simp add: opened_def lowest_free_boot) (simp add: boot_def)
  moreover have "configure_serial_raw linux ''/dev/ttyS0'' 115200 boot
      = (Inl (SystemExit 0), snd (configure_serial_raw linux ''/dev/ttyS0'' 115200 boot))"
    using boot_ttyS0_succeeds[of 115200] by (simp add: prod_eq_iff)
  then have "fdtab (snd (configure_serial_raw linux ''/dev/ttyS0'' 115200 boot)) = fdtab boot"
    by (rule handle_released_on_success)
  ultimately show ?thesis by simp
qed

section \<open>The control-character table\<close>

text \<open>
  C9. A successful run carries every entry of the control-character table other than
  \<^verbatim>\<open>VMIN\<close> and \<^verbatim>\<open>VTIME\<close> over from the record the device held before into the
  record it holds after; the table keeps its length.
\<close>

theorem C9_other_control_characters_kept:
  assumes "configure_serial_raw h port_path baudrate w = (Inl (SystemExit 0), w')"
  shows "\<exists>a r. applied w port_path = Some a \<and> applied w' port_path = Some r
           \<and> length (cc r) = length (cc a)
           \<and> (\<forall>i < length (cc a). i \<noteq> VMIN h \<longrightarrow> i \<noteq> VTIME h \<longrightarrow> cc r ! i = cc a ! i)"
proof -
  from assms obtain d a c0 r where
    d: "nodes w port_path = Some d" "line d = Some a" and
    r: "raw_attr h (resolved_baud h baudrate c0) a = Inr r" and
    w': "w' = (warned h baudrate w)\<lparr>nodes := (nodes w)(port_path \<mapsto> d\<lparr>line := Some r\<rparr>),
                 stdout := stdout (warned h baudrate w) @ confirmation_lines port_path (effective_rate h baudrate)\<rparr>"
    by (rule success_char)
  have "applied w' port_path = Some r"
    unfolding w' by (rule applied_after)
  moreover from d have "applied w port_path = Some a"
    by (simp add: applied_def)
  moreover from r have "cc r = (cc a)[VMIN h := 0, VTIME h := 0]"
    by (simp add: raw_attr_Inr)
  ultimately show ?thesis by (simp add: nth_list_update)
qed

theorem C9_other_control_characters_kept_witness:
  "configure_serial_raw linux ''/dev/ttyS0'' 230400 boot = (Inl (SystemExit 0), configured)
   \<and> applied boot ''/dev/ttyS0'' = Some cooked
   \<and> length (cc (the (applied configured ''/dev/ttyS0''))) = 32
   \<and> (2::nat) < length (cc cooked) \<and> (2::nat) \<noteq> VMIN linux \<and> (2::nat) \<noteq> VTIME linux
   \<and> cc (the (applied configured ''/dev/ttyS0'')) ! 2 = 127"
proof -
  have a: "applied boot ''/dev/ttyS0'' = Some cooked"
    by (simp add: applied_def boot_def ttyS0_def)
  from C9_other_control_characters_kept[OF configured_run] a obtain r where
    r: "applied configured ''/dev/ttyS0'' = Some r" "length (cc r) = length (cc cooked)"
    "\<forall>i < length (cc cooked). i \<noteq> VMIN linux \<longrightarrow> i \<noteq> VTIME linux \<longrightarrow> cc r ! i = cc cooked ! i"
    by auto
  have i: "(2::nat) < length (cc cooked)" "(2::nat) \<noteq> VMIN linux" "(2::nat) \<noteq> VTIME linux"
    by (simp_all add: cooked_def linux_def)
  with r(3) have "cc r ! 2 = cc cooked ! 2" by blast
  then show ?thesis
    using configured_run a r(1,2) i by (simp add: cooked_def)
qed

section \<open>The command line\<close>




end
